theory Spec2Isabelle
  imports Complex_Main
begin

section \<open>Arrays and the store\<close>

text \<open>
  A numpy array is its shape and its buffer in row-major order. The element type (the
  array's floating dtype) is a type parameter with the operations the source applies to it:
  the structural results below use none of its arithmetic laws, so they fix the order of
  the operations exactly as the source performs them. Results about values are stated over
  a commutative ring or over the real numbers.
\<close>

record 'a ndarray =
  shape :: "nat list"
  data :: "'a list"

definition wf_ndarray :: "'a ndarray \<Rightarrow> bool" where
  "wf_ndarray a \<longleftrightarrow> length (data a) = prod_list (shape a)"

type_synonym ref = nat

text \<open>
  Arrays are objects: a variable holds a reference, and in-place operators write through it.
  The store maps references to arrays; \<open>next_ref\<close> is the next free reference and \<open>junk\<close> is
  what uninitialised memory happens to hold (read by \<open>np.empty_like\<close>).
\<close>

record 'a heap =
  cells :: "ref \<Rightarrow> 'a ndarray"
  next_ref :: nat
  junk :: "nat \<Rightarrow> 'a"

datatype error = AssertionError string | ValueError string | IndexError string

definition deref :: "'a heap \<Rightarrow> ref \<Rightarrow> 'a ndarray" where
  "deref h r = cells h r"

definition store :: "ref \<Rightarrow> 'a ndarray \<Rightarrow> 'a heap \<Rightarrow> 'a heap" where
  "store r a h = h\<lparr>cells := (cells h)(r := a)\<rparr>"

definition alloc :: "'a ndarray \<Rightarrow> 'a heap \<Rightarrow> ref \<times> 'a heap" where
  "alloc a h = (next_ref h, h\<lparr>cells := (cells h)(next_ref h := a), next_ref := Suc (next_ref h)\<rparr>)"

text \<open>\<open>a.copy()\<close>: a fresh array with the same shape and contents.\<close>

definition copy :: "ref \<Rightarrow> 'a heap \<Rightarrow> ref \<times> 'a heap" where
  "copy r h = alloc (deref h r) h"

text \<open>\<open>np.empty_like(a)\<close>: a fresh array of the same shape, contents uninitialised.\<close>

definition empty_like :: "ref \<Rightarrow> 'a heap \<Rightarrow> ref \<times> 'a heap" where
  "empty_like r h =
     alloc \<lparr>shape = shape (deref h r),
            data = map (junk h) [0..<length (data (deref h r))]\<rparr> h"

subsection \<open>Two-dimensional indexing\<close>

definition nrows :: "'a ndarray \<Rightarrow> nat" where
  "nrows a = shape a ! 0"

definition ncols :: "'a ndarray \<Rightarrow> nat" where
  "ncols a = shape a ! 1"

text \<open>\<open>a[i]\<close>, the \<open>i\<close>-th row.\<close>

definition row :: "'a ndarray \<Rightarrow> nat \<Rightarrow> 'a list" where
  "row a i = take (ncols a) (drop (i * ncols a) (data a))"

text \<open>\<open>a[:, k]\<close>, read: one entry per row.\<close>

definition col :: "'a ndarray \<Rightarrow> nat \<Rightarrow> 'a list" where
  "col a k = map (\<lambda>i. data a ! (i * ncols a + k)) [0..<nrows a]"

text \<open>
  \<open>a[:, k] = v\<close>: position \<open>j\<close> of the buffer lies in row \<open>j div ncols\<close> and column
  \<open>j mod ncols\<close>. Every \<open>v\<close> assigned in this program is built from columns of an array
  of the same shape, so it has one entry per row and numpy's broadcast check cannot fail.
\<close>

definition set_col :: "nat \<Rightarrow> 'a list \<Rightarrow> 'a ndarray \<Rightarrow> 'a ndarray" where
  "set_col k v a =
     a\<lparr>data := map (\<lambda>j. if j mod ncols a = k then v ! (j div ncols a) else data a ! j)
                   [0..<length (data a)]\<rparr>"

text \<open>
  \<open>a[:, sel] op= c\<close> for a column slice \<open>sel\<close>: the entries in the selected columns are
  replaced by \<open>f\<close> of themselves, the others stay.
\<close>

definition map_cols :: "(nat \<Rightarrow> bool) \<Rightarrow> ('a \<Rightarrow> 'a) \<Rightarrow> 'a ndarray \<Rightarrow> 'a ndarray" where
  "map_cols sel f a =
     a\<lparr>data := map (\<lambda>j. if sel (j mod ncols a) then f (data a ! j) else data a ! j)
                   [0..<length (data a)]\<rparr>"

text \<open>The slices \<open>k:\<close> and \<open>:k\<close> as sets of column indices.\<close>

definition slice_from :: "nat \<Rightarrow> nat \<Rightarrow> bool" where
  "slice_from k c \<longleftrightarrow> k \<le> c"

definition slice_to :: "nat \<Rightarrow> nat \<Rightarrow> bool" where
  "slice_to k c \<longleftrightarrow> c < k"

definition only :: "nat \<Rightarrow> nat \<Rightarrow> bool" where
  "only k c \<longleftrightarrow> c = k"

subsection \<open>Elementwise arithmetic on one-dimensional arrays\<close>

definition vadd :: "'a::plus list \<Rightarrow> 'a list \<Rightarrow> 'a list" where
  "vadd xs ys = map2 (+) xs ys"

definition vsub :: "'a::minus list \<Rightarrow> 'a list \<Rightarrow> 'a list" where
  "vsub xs ys = map2 (-) xs ys"

definition vmul :: "'a::times list \<Rightarrow> 'a list \<Rightarrow> 'a list" where
  "vmul xs ys = map2 (*) xs ys"

text \<open>A Python scalar on the left of an array: \<open>c * xs\<close> and \<open>c - xs\<close>.\<close>

definition smul :: "'a::times \<Rightarrow> 'a list \<Rightarrow> 'a list" where
  "smul c xs = map (\<lambda>x. c * x) xs"

definition rsub :: "'a::minus \<Rightarrow> 'a list \<Rightarrow> 'a list" where
  "rsub c xs = map (\<lambda>x. c - x) xs"

subsection \<open>Reads and writes through a reference\<close>

definition getitem_col :: "'a heap \<Rightarrow> ref \<Rightarrow> nat \<Rightarrow> 'a list" where
  "getitem_col h r k = col (deref h r) k"

definition setitem_col :: "ref \<Rightarrow> nat \<Rightarrow> 'a list \<Rightarrow> 'a heap \<Rightarrow> 'a heap" where
  "setitem_col r k v h = store r (set_col k v (deref h r)) h"

definition inplace_cols :: "ref \<Rightarrow> (nat \<Rightarrow> bool) \<Rightarrow> ('a \<Rightarrow> 'a) \<Rightarrow> 'a heap \<Rightarrow> 'a heap" where
  "inplace_cols r sel f h = store r (map_cols sel f (deref h r)) h"

subsection \<open>Statement sequences\<close>

text \<open>
  A block of statements that only update the store is run in order, each statement
  evaluating its right-hand side in the store the previous one left.
\<close>

definition exec :: "('s \<Rightarrow> 's) list \<Rightarrow> 's \<Rightarrow> 's" where
  "exec stmts h = fold (\<lambda>stmt. stmt) stmts h"

section \<open>The symmetric tensor self-product\<close>

text \<open>
  The functions receive references to arrays. \<open>np.asarray\<close> of an array is that same array,
  so the rebinding \<open>A = np.asarray(A)\<close> leaves the reference as it is. The two \<open>assert\<close>
  statements are the first two branches; a failing one raises before anything is allocated.
\<close>

definition tensor2 :: "ref \<Rightarrow> 'a::{plus,times} heap \<Rightarrow> error + (ref \<times> 'a heap)" where
  "tensor2 A h0 =
    (if 2 \<noteq> length (shape (deref h0 A))
       then Inl (AssertionError ''Data must be a 2D array of tensors'')
     else if 6 \<noteq> shape (deref h0 A) ! 1
       then Inl (AssertionError ''Data elements must be in Abaqus symmetric tensor format'')
     else
       let (result, h) = empty_like A h0;
           t11 = 0; t22 = 1; t33 = 2; t12 = 3; t13 = 4; t23 = 5;
           t21 = t12; t31 = t13; t32 = t23
       in Inr (result, exec
            [\<lambda>h. setitem_col result t11
                 (vadd (vadd (vmul (getitem_col h A t11) (getitem_col h A t11))
                             (vmul (getitem_col h A t12) (getitem_col h A t21)))
                       (vmul (getitem_col h A t13) (getitem_col h A t31))) h,
             \<lambda>h. setitem_col result t22
                 (vadd (vadd (vmul (getitem_col h A t21) (getitem_col h A t12))
                             (vmul (getitem_col h A t22) (getitem_col h A t22)))
                       (vmul (getitem_col h A t23) (getitem_col h A t32))) h,
             \<lambda>h. setitem_col result t33
                 (vadd (vadd (vmul (getitem_col h A t31) (getitem_col h A t13))
                             (vmul (getitem_col h A t32) (getitem_col h A t23)))
                       (vmul (getitem_col h A t33) (getitem_col h A t33))) h,
             \<lambda>h. setitem_col result t12
                 (vadd (vadd (vmul (getitem_col h A t11) (getitem_col h A t12))
                             (vmul (getitem_col h A t12) (getitem_col h A t22)))
                       (vmul (getitem_col h A t13) (getitem_col h A t32))) h,
             \<lambda>h. setitem_col result t13
                 (vadd (vadd (vmul (getitem_col h A t11) (getitem_col h A t13))
                             (vmul (getitem_col h A t12) (getitem_col h A t23)))
                       (vmul (getitem_col h A t13) (getitem_col h A t33))) h,
             \<lambda>h. setitem_col result t23
                 (vadd (vadd (vmul (getitem_col h A t21) (getitem_col h A t13))
                             (vmul (getitem_col h A t22) (getitem_col h A t23)))
                       (vmul (getitem_col h A t23) (getitem_col h A t33))) h]
            h))"

section \<open>Green strain\<close>

definition green :: "ref \<Rightarrow> 'a::{numeral,minus,times,inverse} heap \<Rightarrow> error + (ref \<times> 'a heap)" where
  "green NEarray h0 =
    (if 2 \<noteq> length (shape (deref h0 NEarray))
       then Inl (AssertionError ''NEarray must be a 2D array of tensors'')
     else if 6 \<noteq> shape (deref h0 NEarray) ! 1
       then Inl (AssertionError ''NEarray elements must be in Abaqus symmetric tensor format'')
     else
       let (V, h) = copy NEarray h0;
           h = inplace_cols V (slice_from 3) (\<lambda>x. x / 2) h;
           h = inplace_cols V (slice_to 3) (\<lambda>x. x + 1) h
       in case tensor2 V h of
            Inl e \<Rightarrow> Inl e
          | Inr (V, h) \<Rightarrow>
              let h = inplace_cols V (slice_to 3) (\<lambda>x. x - 1) h;
                  h = inplace_cols V (slice_to 3) (\<lambda>x. x / 2) h
              in Inr (V, h))"

section \<open>Quaternions to rotation matrices\<close>

text \<open>
  \<open>np.transpose\<close> of a Python list of \<open>m\<close> one-dimensional arrays of length \<open>n\<close>: the
  list becomes an \<open>(m, n)\<close> array with one row per list entry, and the transpose is \<open>(n, m)\<close>.
  Position \<open>j\<close> of its row-major buffer is row \<open>j div m\<close>, column \<open>j mod m\<close>, and holds
  entry \<open>j div m\<close> of list member \<open>j mod m\<close>.
\<close>

definition transpose_list :: "'a list list \<Rightarrow> 'a ndarray" where
  "transpose_list cs =
     (let n = length (hd cs); m = length cs
      in \<lparr>shape = [n, m], data = map (\<lambda>j. cs ! (j mod m) ! (j div m)) [0..<n * m]\<rparr>)"

text \<open>\<open>a.reshape(-1, 3, 3)\<close>: the buffer stays, the leading dimension is inferred.\<close>

definition reshape_3_3 :: "'a ndarray \<Rightarrow> error + 'a ndarray" where
  "reshape_3_3 a =
     (if length (data a) mod 9 = 0
        then Inr \<lparr>shape = [length (data a) div 9, 3, 3], data = data a\<rparr>
      else Inl (ValueError ''cannot reshape array''))"

definition quat2matrix :: "ref \<Rightarrow> 'a::{numeral,minus,times} heap \<Rightarrow> error + (ref \<times> 'a heap)" where
  "quat2matrix quatArray h =
    (if 2 \<noteq> length (shape (deref h quatArray))
       then Inl (AssertionError ''Must be a 2D array'')
     else if 4 \<noteq> shape (deref h quatArray) ! 1
       then Inl (AssertionError ''Must be an array of quaternions'')
     else
       let q1 = getitem_col h quatArray 0;
           q2 = getitem_col h quatArray 1;
           q3 = getitem_col h quatArray 2;
           q0 = getitem_col h quatArray 3
       in case reshape_3_3 (transpose_list
            [vsub (rsub 1 (vmul (smul 2 q2) q2)) (vmul (smul 2 q3) q3),
             vsub (vmul (smul 2 q1) q2) (vmul (smul 2 q0) q3),
             vadd (vmul (smul 2 q1) q3) (vmul (smul 2 q0) q2),
             vadd (vmul (smul 2 q1) q2) (vmul (smul 2 q0) q3),
             vsub (rsub 1 (vmul (smul 2 q1) q1)) (vmul (smul 2 q3) q3),
             vsub (vmul (smul 2 q2) q3) (vmul (smul 2 q0) q1),
             vsub (vmul (smul 2 q1) q3) (vmul (smul 2 q0) q2),
             vadd (vmul (smul 2 q2) q3) (vmul (smul 2 q0) q1),
             vsub (rsub 1 (vmul (smul 2 q1) q1)) (vmul (smul 2 q2) q2)]) of
            Inl e \<Rightarrow> Inl e
          | Inr m \<Rightarrow> Inr (alloc m h))"

text \<open>
  The orientation branch of \<open>calculateGE\<close> (the three statements under its second
  \<open>if\<close>): copy the block's quaternion array, negate column 3 in place, convert.
  Indexing column 3 raises IndexError on an array without a second axis or with fewer
  than four columns. On an array of more than two dimensions the call ends in the
  AssertionError of \<open>quat2matrix\<close>, and an error carries no store.
\<close>

definition calculateGE_localCoordSystem ::
  "ref \<Rightarrow> 'a::{numeral,uminus,minus,times} heap \<Rightarrow> error + (ref \<times> 'a heap)" where
  "calculateGE_localCoordSystem localCoordSystem h0 =
    (let (quatArray, h) = copy localCoordSystem h0
     in if length (shape (deref h quatArray)) < 2
          then Inl (IndexError ''too many indices for array'')
        else if shape (deref h quatArray) ! 1 \<le> 3
          then Inl (IndexError ''index 3 is out of bounds for axis 1'')
        else quat2matrix quatArray (inplace_cols quatArray (only 3) (\<lambda>x. x * - 1) h))"

section \<open>Row-wise reference functions\<close>

text \<open>
  What the array statements of \<open>tensor2\<close> compute for one row \<open>a\<close> of the argument,
  with the column indices \<open>t11, \<dots>, t23\<close> and their symmetric aliases written out.
\<close>

definition tensor2_row :: "'a::{plus,times} list \<Rightarrow> 'a list" where
  "tensor2_row a =
     [a ! 0 * a ! 0 + a ! 3 * a ! 3 + a ! 4 * a ! 4,
      a ! 3 * a ! 3 + a ! 1 * a ! 1 + a ! 5 * a ! 5,
      a ! 4 * a ! 4 + a ! 5 * a ! 5 + a ! 2 * a ! 2,
      a ! 0 * a ! 3 + a ! 3 * a ! 1 + a ! 4 * a ! 5,
      a ! 0 * a ! 4 + a ! 3 * a ! 5 + a ! 4 * a ! 2,
      a ! 3 * a ! 4 + a ! 1 * a ! 5 + a ! 5 * a ! 2]"


text \<open>The four steps of the Green strain transform on one row, as the specification lists them.\<close>

definition shear_to_tensor :: "'a::{numeral,inverse} list \<Rightarrow> 'a list" where
  "shear_to_tensor r = [r ! 0, r ! 1, r ! 2, r ! 3 / 2, r ! 4 / 2, r ! 5 / 2]"

definition add_identity :: "'a::numeral list \<Rightarrow> 'a list" where
  "add_identity r = [r ! 0 + 1, r ! 1 + 1, r ! 2 + 1, r ! 3, r ! 4, r ! 5]"

definition subtract_identity :: "'a::{numeral,minus} list \<Rightarrow> 'a list" where
  "subtract_identity r = [r ! 0 - 1, r ! 1 - 1, r ! 2 - 1, r ! 3, r ! 4, r ! 5]"

definition halve_normal :: "'a::{numeral,inverse} list \<Rightarrow> 'a list" where
  "halve_normal r = [r ! 0 / 2, r ! 1 / 2, r ! 2 / 2, r ! 3, r ! 4, r ! 5]"

definition green_row :: "'a::{numeral,minus,times,inverse} list \<Rightarrow> 'a list" where
  "green_row r =
     halve_normal (subtract_identity (tensor2_row (add_identity (shear_to_tensor r))))"

text \<open>
  What the nine array expressions of \<open>quat2matrix\<close> compute for one quaternion row
  \<open>(q1, q2, q3, q0)\<close>, operation by operation, arranged as the three rows of the matrix.
\<close>

definition quat2matrix_row :: "'a::{numeral,minus,times} list \<Rightarrow> 'a list list" where
  "quat2matrix_row q =
     (let q1 = q ! 0; q2 = q ! 1; q3 = q ! 2; q0 = q ! 3
      in [[1 - 2 * q2 * q2 - 2 * q3 * q3, 2 * q1 * q2 - 2 * q0 * q3, 2 * q1 * q3 + 2 * q0 * q2],
          [2 * q1 * q2 + 2 * q0 * q3, 1 - 2 * q1 * q1 - 2 * q3 * q3, 2 * q2 * q3 - 2 * q0 * q1],
          [2 * q1 * q3 - 2 * q0 * q2, 2 * q2 * q3 + 2 * q0 * q1, 1 - 2 * q1 * q1 - 2 * q2 * q2]])"

text \<open>
  The reference for the self-product: a packed row unpacked into the full symmetric
  \<open>3 \<times> 3\<close> matrix, the textbook matrix product, and the packing of a matrix.
\<close>

definition unpack_sym :: "'a list \<Rightarrow> 'a list list" where
  "unpack_sym r = [[r ! 0, r ! 3, r ! 4],
                   [r ! 3, r ! 1, r ! 5],
                   [r ! 4, r ! 5, r ! 2]]"

definition pack_sym :: "'a list list \<Rightarrow> 'a list" where
  "pack_sym P = [P ! 0 ! 0, P ! 1 ! 1, P ! 2 ! 2, P ! 0 ! 1, P ! 0 ! 2, P ! 1 ! 2]"

definition mat_mul :: "'a::semiring_0 list list \<Rightarrow> 'a list list \<Rightarrow> 'a list list" where
  "mat_mul A B =
     map (\<lambda>i. map (\<lambda>j. \<Sum>k\<leftarrow>[0..<length B]. A ! i ! k * B ! k ! j) [0..<length (hd B)])
         [0..<length A]"

text \<open>\<open>m[i]\<close> for an array of shape \<open>(N, 3, 3)\<close>: the \<open>i\<close>-th matrix, as its three rows.\<close>

definition matrix3 :: "'a ndarray \<Rightarrow> nat \<Rightarrow> 'a list list" where
  "matrix3 m i = map (\<lambda>r. map (\<lambda>c. data m ! (i * 9 + r * 3 + c)) [0..<3]) [0..<3]"

definition identity3 :: "'a::{zero,one} list list" where
  "identity3 = [[1, 0, 0], [0, 1, 0], [0, 0, 1]]"

text \<open>The standard rotation matrix of a quaternion \<open>(x, y, z, w)\<close>, scalar part last.\<close>

definition rotation_formula :: "'a::comm_ring_1 list \<Rightarrow> 'a list list" where
  "rotation_formula q =
     (let x = q ! 0; y = q ! 1; z = q ! 2; w = q ! 3
      in [[1 - 2 * (y\<^sup>2 + z\<^sup>2), 2 * (x * y - w * z), 2 * (x * z + w * y)],
          [2 * (x * y + w * z), 1 - 2 * (x\<^sup>2 + z\<^sup>2), 2 * (y * z - w * x)],
          [2 * (x * z - w * y), 2 * (y * z + w * x), 1 - 2 * (x\<^sup>2 + y\<^sup>2)]])"

definition unit_quaternion :: "'a::comm_ring_1 list \<Rightarrow> bool" where
  "unit_quaternion q \<longleftrightarrow> (q ! 0)\<^sup>2 + (q ! 1)\<^sup>2 + (q ! 2)\<^sup>2 + (q ! 3)\<^sup>2 = 1"

section \<open>Example stores\<close>

text \<open>
  A store holding the two strain rows of the doctests, two quaternions (the identity and
  the non-unit \<open>(1, 2, 3, 4)\<close>), a unit quaternion batch, the single row of the end-to-end
  example, an all-zero batch, and arrays of the wrong shape.
\<close>

definition ex_cells :: "real ndarray list" where
  "ex_cells =
     [\<lparr>shape = [2, 6], data = [1, 2, 3, 4, 5, 6, 0.2, 0, 0, 0.3, - 0.5, 0]\<rparr>,
      \<lparr>shape = [2, 4], data = [0, 0, 0, 1, 1, 2, 3, 4]\<rparr>,
      \<lparr>shape = [1, 4], data = [0.5, 0.5, 0.5, 0.5]\<rparr>,
      \<lparr>shape = [1, 6], data = [1, 2, 3, 4, 5, 6]\<rparr>,
      \<lparr>shape = [2, 6], data = [0, 0, 0, 0, 0, 0, 0, 0, 0, 0, 0, 0]\<rparr>,
      \<lparr>shape = [1, 5], data = [1, 2, 3, 4, 5]\<rparr>,
      \<lparr>shape = [1, 7], data = [1, 2, 3, 4, 5, 6, 7]\<rparr>,
      \<lparr>shape = [1, 3], data = [0, 0, 1]\<rparr>,
      \<lparr>shape = [6], data = [1, 2, 3, 4, 5, 6]\<rparr>]"

definition ex_heap :: "real heap" where
  "ex_heap =
     \<lparr>cells = (\<lambda>r. if r < length ex_cells then ex_cells ! r else \<lparr>shape = [0], data = []\<rparr>),
      next_ref = length ex_cells,
      junk = (\<lambda>j. 7)\<rparr>"

section \<open>Store and array lemmas\<close>

lemma deref_store: "deref (store r a h) r' = (if r' = r then a else deref h r')"
  by (simp add: deref_def store_def)

lemma next_ref_store: "next_ref (store r a h) = next_ref h"
  by (simp add: store_def)

lemma deref_setitem_col:
  "deref (setitem_col r k v h) r' = (if r' = r then set_col k v (deref h r) else deref h r')"
  by (simp add: setitem_col_def deref_store)

lemma next_ref_setitem_col: "next_ref (setitem_col r k v h) = next_ref h"
  by (simp add: setitem_col_def next_ref_store)

lemma getitem_col_setitem_col:
  "r' \<noteq> r \<Longrightarrow> getitem_col (setitem_col r k v h) r' c = getitem_col h r' c"
  by (simp add: getitem_col_def deref_setitem_col)

lemma shape_set_col: "shape (set_col k v a) = shape a"
  by (simp add: set_col_def)

lemma ncols_set_col: "ncols (set_col k v a) = ncols a"
  by (simp add: ncols_def shape_set_col)

lemma length_set_col: "length (data (set_col k v a)) = length (data a)"
  by (simp add: set_col_def)

lemma nth_set_col:
  "j < length (data a) \<Longrightarrow>
   data (set_col k v a) ! j = (if j mod ncols a = k then v ! (j div ncols a) else data a ! j)"
  by (simp add: set_col_def)

lemma length_col: "length (col a k) = nrows a"
  by (simp add: col_def)

lemma nth_col: "i < nrows a \<Longrightarrow> col a k ! i = data a ! (i * ncols a + k)"
  by (simp add: col_def)

lemma nth_vadd: "i < length xs \<Longrightarrow> i < length ys \<Longrightarrow> vadd xs ys ! i = xs ! i + ys ! i"
  by (simp add: vadd_def)

lemma nth_vmul: "i < length xs \<Longrightarrow> i < length ys \<Longrightarrow> vmul xs ys ! i = xs ! i * ys ! i"
  by (simp add: vmul_def)

lemma length_vadd: "length (vadd xs ys) = min (length xs) (length ys)"
  by (simp add: vadd_def)

lemma length_vmul: "length (vmul xs ys) = min (length xs) (length ys)"
  by (simp add: vmul_def)

lemma exec_Nil: "exec [] h = h"
  by (simp add: exec_def)

lemma exec_Cons: "exec (s # ss) h = exec ss (s h)"
  by (simp add: exec_def)

lemma lt6_cases: "k < 6 \<Longrightarrow> k = 0 \<or> k = 1 \<or> k = 2 \<or> k = 3 \<or> k = 4 \<or> k = (5::nat)"
  by arith

lemma length_row:
  "ncols a = m \<Longrightarrow> length (data a) = N * m \<Longrightarrow> i < N \<Longrightarrow> length (row a i) = m"
proof -
  assume a: "ncols a = m" "length (data a) = N * m" "i < N"
  then have "Suc i \<le> N" by simp
  then have "Suc i * m \<le> N * m" by (rule mult_le_mono1)
  then have "m \<le> N * m - i * m" by simp
  with a show ?thesis by (simp add: row_def)
qed

lemma cell_in_range: "i < N \<Longrightarrow> k < m \<Longrightarrow> i * m + k < N * (m::nat)"
proof -
  assume a: "i < N" "k < m"
  then have "Suc i \<le> N" by simp
  then have "Suc i * m \<le> N * m" by (rule mult_le_mono1)
  with a show ?thesis by simp
qed

lemma nth_row:
  "ncols a = m \<Longrightarrow> length (data a) = N * m \<Longrightarrow> i < N \<Longrightarrow> k < m \<Longrightarrow>
   row a i ! k = data a ! (i * m + k)"
  using cell_in_range [of i N k m] by (simp add: row_def)

lemma row_set_col6:
  assumes sh: "shape e = [N, 6]" and len: "length (data e) = N * 6" and i: "i < N"
  shows "row (set_col 5 w5 (set_col 4 w4 (set_col 3 w3 (set_col 2 w2
              (set_col 1 w1 (set_col 0 w0 e)))))) i
         = [w0 ! i, w1 ! i, w2 ! i, w3 ! i, w4 ! i, w5 ! i]"
proof -
  let ?r = "set_col 5 w5 (set_col 4 w4 (set_col 3 w3 (set_col 2 w2
              (set_col 1 w1 (set_col 0 w0 e)))))"
  have nc: "ncols ?r = 6" using sh by (simp add: ncols_set_col) (simp add: ncols_def)
  have ln: "length (data ?r) = N * 6" using len by (simp add: length_set_col)
  have cell: "data ?r ! (i * 6 + k) = [w0 ! i, w1 ! i, w2 ! i, w3 ! i, w4 ! i, w5 ! i] ! k"
    if k: "k < 6" for k
  proof -
    have rg: "i * 6 + k < N * 6" using i k by (rule cell_in_range)
    have nce: "ncols e = 6" using sh by (simp add: ncols_def)
    from lt6_cases [OF k] show ?thesis
      using rg len nce by (auto simp add: nth_set_col length_set_col ncols_set_col)
  qed
  have lr: "length (row ?r i) = 6" by (rule length_row [OF nc ln i])
  show ?thesis
  proof (rule nth_equalityI)
    show "length (row ?r i) = length [w0 ! i, w1 ! i, w2 ! i, w3 ! i, w4 ! i, w5 ! i]"
      using lr by simp
  next
    fix k assume "k < length (row ?r i)"
    then have k: "k < 6" using lr by simp
    have "row ?r i ! k = data ?r ! (i * 6 + k)" by (rule nth_row [OF nc ln i k])
    also have "\<dots> = [w0 ! i, w1 ! i, w2 ! i, w3 ! i, w4 ! i, w5 ! i] ! k" by (rule cell [OF k])
    finally show "row ?r i ! k = [w0 ! i, w1 ! i, w2 ! i, w3 ! i, w4 ! i, w5 ! i] ! k" .
  qed
qed


lemma tensor2_row_cols:
  assumes sh: "shape a = [N, 6]" and len: "length (data a) = N * 6" and i: "i < N"
  shows "[vadd (vadd (vmul (col a 0) (col a 0)) (vmul (col a 3) (col a 3)))
               (vmul (col a 4) (col a 4)) ! i,
          vadd (vadd (vmul (col a 3) (col a 3)) (vmul (col a 1) (col a 1)))
               (vmul (col a 5) (col a 5)) ! i,
          vadd (vadd (vmul (col a 4) (col a 4)) (vmul (col a 5) (col a 5)))
               (vmul (col a 2) (col a 2)) ! i,
          vadd (vadd (vmul (col a 0) (col a 3)) (vmul (col a 3) (col a 1)))
               (vmul (col a 4) (col a 5)) ! i,
          vadd (vadd (vmul (col a 0) (col a 4)) (vmul (col a 3) (col a 5)))
               (vmul (col a 4) (col a 2)) ! i,
          vadd (vadd (vmul (col a 3) (col a 4)) (vmul (col a 1) (col a 5)))
               (vmul (col a 5) (col a 2)) ! i]
         = tensor2_row (row a i)"
proof -
  have nr: "nrows a = N" and nc: "ncols a = 6" using sh by (simp_all add: nrows_def ncols_def)
  have c: "col a k ! i = row a i ! k" if "k < 6" for k
    using nth_row [OF nc len i that] nth_col [of i a k] i nr nc by simp
  show ?thesis
    using i nr
    by (simp add: tensor2_row_def nth_vadd nth_vmul length_vadd length_vmul length_col c)
qed

lemma tensor2_result:
  fixes h :: "'a::{plus,times} heap"
  assumes pres: "A < next_ref h" and sh: "shape (deref h A) = [N, 6]"
    and wf: "wf_ndarray (deref h A)"
  shows "\<exists>h'. tensor2 A h = Inr (next_ref h, h')
     \<and> next_ref h' = Suc (next_ref h)
     \<and> (\<forall>r. r \<noteq> next_ref h \<longrightarrow> deref h' r = deref h r)
     \<and> shape (deref h' (next_ref h)) = [N, 6]
     \<and> length (data (deref h' (next_ref h))) = N * 6
     \<and> (\<forall>i<N. row (deref h' (next_ref h)) i = tensor2_row (row (deref h A) i))"
proof -
  let ?a = "cells h A"
  let ?e = "\<lparr>shape = [N, 6], data = map (junk h) [0..<N * 6]\<rparr>"
  have ne: "A \<noteq> next_ref h" using pres by simp
  have sh': "shape ?a = [N, 6]" using sh by (simp add: deref_def)
  have len: "length (data ?a) = N * 6" using wf sh by (simp add: wf_ndarray_def deref_def)
  have she: "shape ?e = [N, 6]" by simp
  have lene: "length (data ?e) = N * 6" by simp
  note rows = row_set_col6 [OF she lene, simplified] tensor2_row_cols [OF sh' len, simplified]
  show ?thesis
    using ne sh
    apply (simp add: tensor2_def empty_like_def alloc_def Let_def)
    apply (simp add: exec_Cons exec_Nil getitem_col_setitem_col)
    apply (simp add: getitem_col_def deref_setitem_col next_ref_setitem_col shape_set_col
        length_set_col)
    apply (simp add: deref_def len rows)
    done
qed

lemma shape_map_cols: "shape (map_cols sel f a) = shape a"
  by (simp add: map_cols_def)

lemma ncols_map_cols: "ncols (map_cols sel f a) = ncols a"
  by (simp add: ncols_def shape_map_cols)

lemma length_map_cols: "length (data (map_cols sel f a)) = length (data a)"
  by (simp add: map_cols_def)

lemma nth_map_cols:
  "j < length (data a) \<Longrightarrow>
   data (map_cols sel f a) ! j = (if sel (j mod ncols a) then f (data a ! j) else data a ! j)"
  by (simp add: map_cols_def)

lemma row_map_cols6:
  assumes nc: "ncols a = 6" and len: "length (data a) = N * 6" and i: "i < N"
  shows "row (map_cols sel f a) i =
         [if sel 0 then f (row a i ! 0) else row a i ! 0,
          if sel 1 then f (row a i ! 1) else row a i ! 1,
          if sel 2 then f (row a i ! 2) else row a i ! 2,
          if sel 3 then f (row a i ! 3) else row a i ! 3,
          if sel 4 then f (row a i ! 4) else row a i ! 4,
          if sel 5 then f (row a i ! 5) else row a i ! 5]"
    (is "?l = ?r")
proof -
  have nc': "ncols (map_cols sel f a) = 6" using nc by (simp add: ncols_map_cols)
  have len': "length (data (map_cols sel f a)) = N * 6" using len by (simp add: length_map_cols)
  have lr: "length ?l = 6" by (rule length_row [OF nc' len' i])
  show ?thesis
  proof (rule nth_equalityI)
    show "length ?l = length ?r" using lr by simp
  next
    fix k assume "k < length ?l"
    then have k: "k < 6" using lr by simp
    have rg: "i * 6 + k < N * 6" using i k by (rule cell_in_range)
    have "?l ! k = data (map_cols sel f a) ! (i * 6 + k)" by (rule nth_row [OF nc' len' i k])
    also have "\<dots> = (if sel k then f (row a i ! k) else row a i ! k)"
      using rg len nc k nth_row [OF nc len i k] by (simp add: nth_map_cols)
    also have "\<dots> = ?r ! k"
      using lt6_cases [OF k] by auto
    finally show "?l ! k = ?r ! k" .
  qed
qed

lemma deref_inplace_cols:
  "deref (inplace_cols r sel f h) r' =
     (if r' = r then map_cols sel f (deref h r) else deref h r')"
  by (simp add: inplace_cols_def deref_store)

lemma next_ref_inplace_cols: "next_ref (inplace_cols r sel f h) = next_ref h"
  by (simp add: inplace_cols_def next_ref_store)

lemma deref_copy: "deref (snd (copy r h)) r' = (if r' = next_ref h then deref h r else deref h r')"
  by (simp add: copy_def alloc_def deref_def)

lemma next_ref_copy: "next_ref (snd (copy r h)) = Suc (next_ref h)"
  by (simp add: copy_def alloc_def)

lemma fst_copy: "fst (copy r h) = next_ref h"
  by (simp add: copy_def alloc_def)

lemma green_result:
  fixes h :: "'a::{numeral,minus,times,inverse} heap"
  assumes sh: "shape (deref h NEarray) = [N, 6]" and wf: "wf_ndarray (deref h NEarray)"
  shows "\<exists>h' hV hW. green NEarray h = Inr (Suc (next_ref h), h')
     \<and> next_ref h' = Suc (Suc (next_ref h))
     \<and> (\<forall>r<next_ref h. deref h' r = deref h r)
     \<and> shape (deref h' (Suc (next_ref h))) = [N, 6]
     \<and> length (data (deref h' (Suc (next_ref h)))) = N * 6
     \<and> (\<forall>i<N. row (deref h' (Suc (next_ref h))) i = green_row (row (deref h NEarray) i))
     \<and> (\<forall>i<N. row (deref hV (next_ref h)) i =
                add_identity (shear_to_tensor (row (deref h NEarray) i)))
     \<and> tensor2 (next_ref h) hV = Inr (Suc (next_ref h), hW)
     \<and> (\<forall>i<N. row (deref h' (Suc (next_ref h))) i =
                halve_normal (subtract_identity (row (deref hW (Suc (next_ref h))) i)))"
proof -
  define a where "a = deref h NEarray"
  define V where "V = next_ref h"
  define hV where "hV = inplace_cols V (slice_to 3) (\<lambda>x. x + 1)
                          (inplace_cols V (slice_from 3) (\<lambda>x. x / 2) (snd (copy NEarray h)))"
  define b where "b = map_cols (slice_to 3) (\<lambda>x. x + 1) (map_cols (slice_from 3) (\<lambda>x. x / 2) a)"
  have nca: "ncols a = 6" using sh by (simp add: a_def ncols_def)
  have lena: "length (data a) = N * 6" using sh wf by (simp add: a_def wf_ndarray_def)
  have dV: "deref hV V = b"
    by (simp add: hV_def b_def a_def V_def deref_inplace_cols deref_copy)
  have old: "deref hV r = deref h r" if "r < next_ref h" for r
    using that by (simp add: hV_def V_def deref_inplace_cols deref_copy)
  have nV: "next_ref hV = Suc (next_ref h)"
    by (simp add: hV_def next_ref_inplace_cols next_ref_copy)
  have shb: "shape b = [N, 6]" using sh by (simp add: b_def a_def shape_map_cols)
  have lenb: "length (data b) = N * 6" using lena by (simp add: b_def length_map_cols)
  have rowb: "row b i = add_identity (shear_to_tensor (row a i))" if "i < N" for i
  proof -
    let ?c = "map_cols (slice_from 3) (\<lambda>x. x / 2) a"
    have ncc: "ncols ?c = 6" using nca by (simp add: ncols_map_cols)
    have lenc: "length (data ?c) = N * 6" using lena by (simp add: length_map_cols)
    show ?thesis
      unfolding b_def
      by (simp add: row_map_cols6 [OF ncc lenc that] row_map_cols6 [OF nca lena that]
          slice_to_def slice_from_def add_identity_def shear_to_tensor_def)
  qed
  have "V < next_ref hV" by (simp add: nV V_def)
  moreover have "shape (deref hV V) = [N, 6]" using shb dV by simp
  moreover have "wf_ndarray (deref hV V)" using shb lenb dV by (simp add: wf_ndarray_def)
  ultimately obtain hW where
    t2: "tensor2 V hV = Inr (next_ref hV, hW)" and
    nW: "next_ref hW = Suc (next_ref hV)" and
    oldW: "\<forall>r. r \<noteq> next_ref hV \<longrightarrow> deref hW r = deref hV r" and
    shW: "shape (deref hW (next_ref hV)) = [N, 6]" and
    lenW: "length (data (deref hW (next_ref hV))) = N * 6" and
    rowW: "\<forall>i<N. row (deref hW (next_ref hV)) i = tensor2_row (row (deref hV V) i)"
    using tensor2_result [of V hV N] by blast
  define W where "W = Suc (next_ref h)"
  define w where "w = deref hW W"
  define h' where "h' = inplace_cols W (slice_to 3) (\<lambda>x. x / 2)
                          (inplace_cols W (slice_to 3) (\<lambda>x. x - 1) hW)"
  have t2V: "tensor2 V hV = Inr (Suc (next_ref h), hW)" using t2 by (simp add: nV)
  then have t2': "tensor2 (next_ref h)
        (inplace_cols (next_ref h) (slice_to 3) (\<lambda>x. x + 1)
          (inplace_cols (next_ref h) (slice_from 3) (\<lambda>x. x / 2) (snd (copy NEarray h))))
      = Inr (Suc (next_ref h), hW)"
    by (simp add: hV_def V_def)
  have g: "green NEarray h = Inr (W, h')"
    using sh by (simp add: green_def Let_def case_prod_beta fst_copy t2' W_def h'_def)
  have shw: "shape w = [N, 6]" using shW by (simp add: w_def W_def nV)
  have ncw: "ncols w = 6" using shw by (simp add: ncols_def)
  have lenw: "length (data w) = N * 6" using lenW by (simp add: w_def W_def nV)
  have dW: "deref h' W = map_cols (slice_to 3) (\<lambda>x. x / 2) (map_cols (slice_to 3) (\<lambda>x. x - 1) w)"
    by (simp add: h'_def w_def deref_inplace_cols)
  have roww: "row w i = tensor2_row (row b i)" if "i < N" for i
    using rowW that by (simp add: w_def W_def nV dV)
  have rowh: "row (deref h' W) i = halve_normal (subtract_identity (row w i))" if "i < N" for i
  proof -
    let ?c = "map_cols (slice_to 3) (\<lambda>x. x - 1) w"
    have ncc: "ncols ?c = 6" using ncw by (simp add: ncols_map_cols)
    have lenc: "length (data ?c) = N * 6" using lenw by (simp add: length_map_cols)
    show ?thesis
      unfolding dW
      by (simp add: row_map_cols6 [OF ncc lenc that] row_map_cols6 [OF ncw lenw that]
          slice_to_def halve_normal_def subtract_identity_def)
  qed
  have rowr: "row (deref h' W) i = green_row (row a i)" if "i < N" for i
    by (simp only: rowh [OF that] roww [OF that] rowb [OF that] green_row_def)
  have oldr: "deref h' r = deref h r" if "r < next_ref h" for r
    using that oldW old by (simp add: h'_def deref_inplace_cols W_def nV)
  have c1: "green NEarray h = Inr (Suc (next_ref h), h')" using g by (simp add: W_def)
  have c2: "next_ref h' = Suc (Suc (next_ref h))"
    by (simp add: h'_def next_ref_inplace_cols nW nV)
  have c3: "\<forall>r<next_ref h. deref h' r = deref h r" using oldr by blast
  have c4: "shape (deref h' (Suc (next_ref h))) = [N, 6]"
    using shw dW by (simp add: W_def shape_map_cols)
  have c5: "length (data (deref h' (Suc (next_ref h)))) = N * 6"
    using lenw dW by (simp add: W_def length_map_cols)
  have c6: "\<forall>i<N. row (deref h' (Suc (next_ref h))) i = green_row (row (deref h NEarray) i)"
    using rowr by (simp add: W_def a_def)
  have c7: "\<forall>i<N. row (deref hV (next_ref h)) i =
                add_identity (shear_to_tensor (row (deref h NEarray) i))"
    using rowb dV by (simp add: V_def a_def)
  have c8: "tensor2 (next_ref h) hV = Inr (Suc (next_ref h), hW)"
    using t2V by (simp add: V_def)
  have c9: "\<forall>i<N. row (deref h' (Suc (next_ref h))) i =
                halve_normal (subtract_identity (row (deref hW (Suc (next_ref h))) i))"
    using rowh by (simp add: W_def w_def)
  from c1 c2 c3 c4 c5 c6 c7 c8 c9 show ?thesis by blast
qed

lemma ndarray_eq: "(a = \<lparr>shape = s, data = d\<rparr>) \<longleftrightarrow> shape a = s \<and> data a = d"
  by (cases a) auto

lemma ex_heap_deref:
  "deref ex_heap 0 = \<lparr>shape = [2, 6], data = [1, 2, 3, 4, 5, 6, 0.2, 0, 0, 0.3, - 0.5, 0]\<rparr>"
  "deref ex_heap 1 = \<lparr>shape = [2, 4], data = [0, 0, 0, 1, 1, 2, 3, 4]\<rparr>"
  "deref ex_heap (Suc 0) = \<lparr>shape = [2, 4], data = [0, 0, 0, 1, 1, 2, 3, 4]\<rparr>"
  "deref ex_heap 2 = \<lparr>shape = [1, 4], data = [0.5, 0.5, 0.5, 0.5]\<rparr>"
  "deref ex_heap 3 = \<lparr>shape = [1, 6], data = [1, 2, 3, 4, 5, 6]\<rparr>"
  "deref ex_heap 4 = \<lparr>shape = [2, 6], data = [0, 0, 0, 0, 0, 0, 0, 0, 0, 0, 0, 0]\<rparr>"
  "deref ex_heap 5 = \<lparr>shape = [1, 5], data = [1, 2, 3, 4, 5]\<rparr>"
  "deref ex_heap 6 = \<lparr>shape = [1, 7], data = [1, 2, 3, 4, 5, 6, 7]\<rparr>"
  "deref ex_heap 7 = \<lparr>shape = [1, 3], data = [0, 0, 1]\<rparr>"
  "deref ex_heap 8 = \<lparr>shape = [6], data = [1, 2, 3, 4, 5, 6]\<rparr>"
  "next_ref ex_heap = 9"
  by (simp_all add: ex_heap_def ex_cells_def deref_def)

section \<open>Row-level facts\<close>

lemma upt3: "[0..<3] = [0, 1, 2]"
  by (simp add: upt_rec)

lemma data_replicateI:
  assumes nc: "ncols a = m" and len: "length (data a) = N * m" and m: "0 < m"
    and rows: "\<And>i. i < N \<Longrightarrow> row a i = replicate m x"
  shows "data a = replicate (N * m) x"
proof (rule nth_equalityI)
  show "length (data a) = length (replicate (N * m) x)" using len by simp
next
  fix j assume "j < length (data a)"
  then have j: "j < N * m" using len by simp
  then have i: "j div m < N" using m by (simp add: less_mult_imp_div_less)
  have k: "j mod m < m" using m by simp
  have "row a (j div m) ! (j mod m) = data a ! (j div m * m + j mod m)"
    by (rule nth_row [OF nc len i k])
  then have "data a ! j = row a (j div m) ! (j mod m)" by simp
  also have "\<dots> = x" using rows [OF i] k by simp
  finally show "data a ! j = replicate (N * m) x ! j" using j by simp
qed

lemma row_replicate:
  assumes nc: "ncols a = m" and d: "data a = replicate (N * m) x" and i: "i < N"
  shows "row a i = replicate m x"
proof -
  have "Suc i \<le> N" using i by simp
  then have "Suc i * m \<le> N * m" by (rule mult_le_mono1)
  then have "m \<le> N * m - i * m" by simp
  then show ?thesis using nc d by (simp add: row_def min_def)
qed

lemma replicate6: "replicate 6 x = [x, x, x, x, x, x]"
  by (simp add: numeral_eq_Suc)

lemma green_row_zero: "green_row [0, 0, 0, 0, 0, 0::real] = [0, 0, 0, 0, 0, 0]"
  by (simp add: green_row_def halve_normal_def subtract_identity_def tensor2_row_def
      add_identity_def shear_to_tensor_def)

lemma green_row_example:
  "green_row [1, 2, 3, 4, 5, 6::real] = [6.625, 10.5, 15.125, 17.5, 21, 26]"
  by (simp add: green_row_def halve_normal_def subtract_identity_def tensor2_row_def
      add_identity_def shear_to_tensor_def)

lemma row_single:
  "shape a = [1, m] \<Longrightarrow> length (data a) = m \<Longrightarrow> row a 0 = data a"
  by (simp add: row_def ncols_def)

lemma tensor2_row_mat_mul:
  fixes r :: "'a::comm_semiring_0 list"
  shows "pack_sym (mat_mul (unpack_sym r) (unpack_sym r)) = tensor2_row r"
    and "mat_mul (unpack_sym r) (unpack_sym r) = unpack_sym (tensor2_row r)"
  by (simp_all add: pack_sym_def mat_mul_def unpack_sym_def tensor2_row_def upt3 ac_simps)

lemma pack_unpack_tensor2_row: "pack_sym (unpack_sym (tensor2_row r)) = tensor2_row r"
  by (simp add: pack_sym_def unpack_sym_def tensor2_row_def)

section \<open>The quaternion conversion on the store\<close>

lemma nth_vsub: "i < length xs \<Longrightarrow> i < length ys \<Longrightarrow> vsub xs ys ! i = xs ! i - ys ! i"
  by (simp add: vsub_def)

lemma length_vsub: "length (vsub xs ys) = min (length xs) (length ys)"
  by (simp add: vsub_def)

lemma nth_smul: "i < length xs \<Longrightarrow> smul c xs ! i = c * xs ! i"
  by (simp add: smul_def)

lemma length_smul: "length (smul c xs) = length xs"
  by (simp add: smul_def)

lemma nth_rsub: "i < length xs \<Longrightarrow> rsub c xs ! i = c - xs ! i"
  by (simp add: rsub_def)

lemma length_rsub: "length (rsub c xs) = length xs"
  by (simp add: rsub_def)

lemmas vec_simps = nth_vadd nth_vsub nth_vmul nth_smul nth_rsub
  length_vadd length_vsub length_vmul length_smul length_rsub length_col

lemma matrix3_transposed:
  assumes i: "i < N"
  shows "matrix3 \<lparr>shape = s, data = map (\<lambda>j. cs ! (j mod 9) ! (j div 9)) [0..<N * 9]\<rparr> i =
         [[cs ! 0 ! i, cs ! 1 ! i, cs ! 2 ! i],
          [cs ! 3 ! i, cs ! 4 ! i, cs ! 5 ! i],
          [cs ! 6 ! i, cs ! 7 ! i, cs ! 8 ! i]]"
proof -
  let ?m = "\<lparr>shape = s, data = map (\<lambda>j. cs ! (j mod 9) ! (j div 9)) [0..<N * 9]\<rparr>"
  have e: "data ?m ! (i * 9 + k) = cs ! k ! i" if "k < 9" for k
  proof -
    have "i * 9 + k < N * 9" using i that by (rule cell_in_range)
    then show ?thesis using that by simp
  qed
  show ?thesis
    unfolding matrix3_def upt3
    using e [of 0] e [of 1] e [of 2] e [of 3] e [of 4] e [of 5] e [of 6] e [of 7] e [of 8]
    by (simp add: add.commute)
qed

lemma quat2matrix_result:
  fixes h :: "'a::{numeral,minus,times} heap"
  assumes sh: "shape (deref h quatArray) = [N, 4]" and wf: "wf_ndarray (deref h quatArray)"
  shows "\<exists>h'. quat2matrix quatArray h = Inr (next_ref h, h')
     \<and> next_ref h' = Suc (next_ref h)
     \<and> (\<forall>r. r \<noteq> next_ref h \<longrightarrow> deref h' r = deref h r)
     \<and> shape (deref h' (next_ref h)) = [N, 3, 3]
     \<and> length (data (deref h' (next_ref h))) = N * 9
     \<and> (\<forall>i<N. matrix3 (deref h' (next_ref h)) i =
                quat2matrix_row (row (deref h quatArray) i))"
proof -
  let ?a = "deref h quatArray"
  define q1 where "q1 = getitem_col h quatArray 0"
  define q2 where "q2 = getitem_col h quatArray 1"
  define q3 where "q3 = getitem_col h quatArray 2"
  define q0 where "q0 = getitem_col h quatArray 3"
  define cs where "cs =
            [vsub (rsub 1 (vmul (smul 2 q2) q2)) (vmul (smul 2 q3) q3),
             vsub (vmul (smul 2 q1) q2) (vmul (smul 2 q0) q3),
             vadd (vmul (smul 2 q1) q3) (vmul (smul 2 q0) q2),
             vadd (vmul (smul 2 q1) q2) (vmul (smul 2 q0) q3),
             vsub (rsub 1 (vmul (smul 2 q1) q1)) (vmul (smul 2 q3) q3),
             vsub (vmul (smul 2 q2) q3) (vmul (smul 2 q0) q1),
             vsub (vmul (smul 2 q1) q3) (vmul (smul 2 q0) q2),
             vadd (vmul (smul 2 q2) q3) (vmul (smul 2 q0) q1),
             vsub (rsub 1 (vmul (smul 2 q1) q1)) (vmul (smul 2 q2) q2)]"
  define m where "m = \<lparr>shape = [N, 3, 3],
                        data = map (\<lambda>j. cs ! (j mod 9) ! (j div 9)) [0..<N * 9]\<rparr>"
  have nr: "nrows ?a = N" and nc: "ncols ?a = 4" using sh by (simp_all add: nrows_def ncols_def)
  have len: "length (data ?a) = N * 4" using sh wf by (simp add: wf_ndarray_def)
  have lq: "length q1 = N" "length q2 = N" "length q3 = N" "length q0 = N"
    by (simp_all add: q1_def q2_def q3_def q0_def getitem_col_def length_col nr)
  have nq: "q1 ! i = row ?a i ! 0" "q2 ! i = row ?a i ! 1" "q3 ! i = row ?a i ! 2"
    "q0 ! i = row ?a i ! 3" if "i < N" for i
    using nth_row [OF nc len that, of 0] nth_row [OF nc len that, of 1]
      nth_row [OF nc len that, of 2] nth_row [OF nc len that, of 3] that nr nc
    by (simp_all add: q1_def q2_def q3_def q0_def getitem_col_def nth_col)
  have lcs: "length cs = 9" by (simp add: cs_def)
  have lhd: "length (hd cs) = N" by (simp add: cs_def vec_simps lq)
  have tl: "transpose_list cs =
      \<lparr>shape = [N, 9], data = map (\<lambda>j. cs ! (j mod 9) ! (j div 9)) [0..<N * 9]\<rparr>"
    by (simp only: transpose_list_def Let_def lcs lhd)
  have rs: "reshape_3_3 (transpose_list cs) = Inr m"
    by (simp add: tl reshape_3_3_def m_def)
  have "quat2matrix quatArray h = (case reshape_3_3 (transpose_list cs) of
            Inl e \<Rightarrow> Inl e | Inr m \<Rightarrow> Inr (alloc m h))"
    unfolding quat2matrix_def Let_def cs_def q1_def q2_def q3_def q0_def
    using sh by simp
  then have q: "quat2matrix quatArray h = Inr (alloc m h)" by (simp add: rs)
  have rows: "matrix3 m i = quat2matrix_row (row ?a i)" if "i < N" for i
    unfolding m_def matrix3_transposed [OF that]
    using that by (simp add: cs_def vec_simps lq nq quat2matrix_row_def Let_def)
  show ?thesis
    using rows by (simp add: q alloc_def deref_def m_def)
qed

lemma quat2matrix_row_formula:
  fixes q :: "'a::comm_ring_1 list"
  shows "quat2matrix_row q = rotation_formula q"
  by (simp add: quat2matrix_row_def rotation_formula_def Let_def power2_eq_square algebra_simps)

lemma row_map_cols4:
  assumes nc: "ncols a = 4" and len: "length (data a) = N * 4" and i: "i < N"
  shows "row (map_cols sel f a) i =
         [if sel 0 then f (row a i ! 0) else row a i ! 0,
          if sel 1 then f (row a i ! 1) else row a i ! 1,
          if sel 2 then f (row a i ! 2) else row a i ! 2,
          if sel 3 then f (row a i ! 3) else row a i ! 3]"
    (is "?l = ?r")
proof -
  have nc': "ncols (map_cols sel f a) = 4" using nc by (simp add: ncols_map_cols)
  have len': "length (data (map_cols sel f a)) = N * 4" using len by (simp add: length_map_cols)
  have lr: "length ?l = 4" by (rule length_row [OF nc' len' i])
  show ?thesis
  proof (rule nth_equalityI)
    show "length ?l = length ?r" using lr by simp
  next
    fix k assume "k < length ?l"
    then have k: "k < 4" using lr by simp
    have rg: "i * 4 + k < N * 4" using i k by (rule cell_in_range)
    have "?l ! k = data (map_cols sel f a) ! (i * 4 + k)" by (rule nth_row [OF nc' len' i k])
    also have "\<dots> = (if sel k then f (row a i ! k) else row a i ! k)"
      using rg len nc k nth_row [OF nc len i k] by (simp add: nth_map_cols)
    also have "\<dots> = ?r ! k"
    proof -
      from k have "k = 0 \<or> k = 1 \<or> k = 2 \<or> k = 3" by arith
      then show ?thesis by auto
    qed
    finally show "?l ! k = ?r ! k" .
  qed
qed

lemma localCoordSystem_result:
  fixes h :: "'a::{numeral,uminus,minus,times} heap"
  assumes sh: "shape (deref h lcs) = [N, 4]" and wf: "wf_ndarray (deref h lcs)"
  shows "\<exists>h'. calculateGE_localCoordSystem lcs h = Inr (Suc (next_ref h), h')
     \<and> (\<forall>r<next_ref h. deref h' r = deref h r)
     \<and> shape (deref h' (Suc (next_ref h))) = [N, 3, 3]
     \<and> (\<forall>i<N. matrix3 (deref h' (Suc (next_ref h))) i =
           quat2matrix_row [row (deref h lcs) i ! 0, row (deref h lcs) i ! 1,
                            row (deref h lcs) i ! 2, row (deref h lcs) i ! 3 * - 1])"
proof -
  define a where "a = deref h lcs"
  define Q where "Q = next_ref h"
  define hQ where "hQ = inplace_cols Q (only 3) (\<lambda>x. x * - 1) (snd (copy lcs h))"
  define b where "b = map_cols (only 3) (\<lambda>x. x * - 1) a"
  have nca: "ncols a = 4" using sh by (simp add: a_def ncols_def)
  have lena: "length (data a) = N * 4" using sh wf by (simp add: a_def wf_ndarray_def)
  have dQ: "deref hQ Q = b"
    by (simp add: hQ_def b_def a_def Q_def deref_inplace_cols deref_copy)
  have old: "deref hQ r = deref h r" if "r < next_ref h" for r
    using that by (simp add: hQ_def Q_def deref_inplace_cols deref_copy)
  have nQ: "next_ref hQ = Suc (next_ref h)"
    by (simp add: hQ_def next_ref_inplace_cols next_ref_copy)
  have shb: "shape b = [N, 4]" using sh by (simp add: b_def a_def shape_map_cols)
  have lenb: "length (data b) = N * 4" using lena by (simp add: b_def length_map_cols)
  have rowb: "row b i = [row a i ! 0, row a i ! 1, row a i ! 2, row a i ! 3 * - 1]"
    if "i < N" for i
    unfolding b_def by (simp add: row_map_cols4 [OF nca lena that] only_def)
  have "shape (deref hQ Q) = [N, 4]" using shb dQ by simp
  moreover have "wf_ndarray (deref hQ Q)" using shb lenb dQ by (simp add: wf_ndarray_def)
  ultimately obtain h' where
    q: "quat2matrix Q hQ = Inr (next_ref hQ, h')" and
    oldq: "\<forall>r. r \<noteq> next_ref hQ \<longrightarrow> deref h' r = deref hQ r" and
    shq: "shape (deref h' (next_ref hQ)) = [N, 3, 3]" and
    rowq: "\<forall>i<N. matrix3 (deref h' (next_ref hQ)) i = quat2matrix_row (row (deref hQ Q) i)"
    using quat2matrix_result [of hQ Q N] by blast
  have "quat2matrix Q hQ = Inr (Suc (next_ref h), h')" using q by (simp add: nQ)
  then have q': "quat2matrix (next_ref h)
        (inplace_cols (next_ref h) (only 3) (\<lambda>x. x * - 1) (snd (copy lcs h)))
      = Inr (Suc (next_ref h), h')"
    by (simp add: hQ_def Q_def)
  have g: "calculateGE_localCoordSystem lcs h = Inr (Suc (next_ref h), h')"
    using sh
    by (simp add: calculateGE_localCoordSystem_def Let_def case_prod_beta fst_copy deref_copy q')
  have "deref h' r = deref h r" if "r < next_ref h" for r
    using that oldq old by (simp add: nQ)
  moreover have "matrix3 (deref h' (Suc (next_ref h))) i =
      quat2matrix_row [row a i ! 0, row a i ! 1, row a i ! 2, row a i ! 3 * - 1]"
    if "i < N" for i
    using rowq that rowb [OF that] by (simp add: nQ dQ)
  ultimately show ?thesis
    using g shq by (auto simp add: nQ a_def)
qed

lemma quat2matrix_row_inverse:
  fixes q :: "real list"
  shows "quat2matrix_row [q ! 0, q ! 1, q ! 2, q ! 3 * - 1] = transpose (quat2matrix_row q)"
  by (simp add: quat2matrix_row_def Let_def)

lemma quat2matrix_row_orthogonal:
  fixes q :: "real list"
  assumes "unit_quaternion q"
  shows "mat_mul (transpose (quat2matrix_row q)) (quat2matrix_row q) = identity3"
    and "mat_mul (quat2matrix_row q) (transpose (quat2matrix_row q)) = identity3"
proof -
  define x y z w where "x = q ! 0" and "y = q ! 1" and "z = q ! 2" and "w = q ! 3"
  have u: "x * x + y * y + z * z + w * w = 1"
    using assms by (simp add: unit_quaternion_def x_def y_def z_def w_def power2_eq_square)
  have R: "quat2matrix_row q =
      [[1 - 2 * y * y - 2 * z * z, 2 * x * y - 2 * w * z, 2 * x * z + 2 * w * y],
       [2 * x * y + 2 * w * z, 1 - 2 * x * x - 2 * z * z, 2 * y * z - 2 * w * x],
       [2 * x * z - 2 * w * y, 2 * y * z + 2 * w * x, 1 - 2 * x * x - 2 * y * y]]"
    by (simp add: quat2matrix_row_def Let_def x_def y_def z_def w_def)
  show "mat_mul (transpose (quat2matrix_row q)) (quat2matrix_row q) = identity3"
    unfolding R
    apply (simp add: mat_mul_def upt3 identity3_def)
    using u apply algebra
    done
  show "mat_mul (quat2matrix_row q) (transpose (quat2matrix_row q)) = identity3"
    unfolding R
    apply (simp add: mat_mul_def upt3 identity3_def)
    using u apply algebra
    done
qed

section \<open>Facts about the example store\<close>

lemma ex_rows:
  "row (deref ex_heap 0) 0 = [1, 2, 3, 4, 5, 6]"
  "row (deref ex_heap 0) 1 = [0.2, 0, 0, 0.3, - 0.5, 0]"
  "row (deref ex_heap 1) 0 = [0, 0, 0, 1]"
  "row (deref ex_heap 1) 1 = [1, 2, 3, 4]"
  "row (deref ex_heap (Suc 0)) 0 = [0, 0, 0, 1]"
  "row (deref ex_heap (Suc 0)) (Suc 0) = [1, 2, 3, 4]"
  "row (deref ex_heap 2) 0 = [0.5, 0.5, 0.5, 0.5]"
  by (simp_all add: ex_heap_deref row_def ncols_def)

section \<open>Claims\<close>

text \<open>
  C1. For every well-formed batch \<open>NE\<close> of shape \<open>(N, 6)\<close>, \<open>green\<close> returns, and its
  result is reached by exactly the listed steps: the array \<open>V\<close> handed to \<open>tensor2\<close> has
  the rows of \<open>NE\<close> with the three shear components divided by 2 and then 1 added to the
  three normal components; \<open>tensor2\<close> is applied to it; and each row of the result is the
  row of the self-product with 1 subtracted from the three normal components, these then
  divided by 2, and the shear components unchanged. The scalar type is arbitrary, so the
  order of the operations is fixed, not only their value.
\<close>

theorem green_steps:
  fixes h :: "'a::{numeral,minus,times,inverse} heap"
  assumes "shape (deref h NE) = [N, 6]" and "wf_ndarray (deref h NE)"
  shows "\<exists>V hV W hW GE h'.
       (\<forall>i<N. row (deref hV V) i = add_identity (shear_to_tensor (row (deref h NE) i)))
     \<and> tensor2 V hV = Inr (W, hW)
     \<and> green NE h = Inr (GE, h') \<and> GE = W
     \<and> (\<forall>i<N. row (deref h' GE) i = halve_normal (subtract_identity (row (deref hW W) i)))
     \<and> (\<forall>i<N. row (deref h' GE) i =
          halve_normal (subtract_identity (tensor2_row
            (add_identity (shear_to_tensor (row (deref h NE) i))))))"
proof -
  from green_result [OF assms] obtain h' hV hW where
    g: "green NE h = Inr (Suc (next_ref h), h')" and
    r: "\<forall>i<N. row (deref h' (Suc (next_ref h))) i = green_row (row (deref h NE) i)" and
    v: "\<forall>i<N. row (deref hV (next_ref h)) i =
                add_identity (shear_to_tensor (row (deref h NE) i))" and
    t: "tensor2 (next_ref h) hV = Inr (Suc (next_ref h), hW)" and
    w: "\<forall>i<N. row (deref h' (Suc (next_ref h))) i =
                halve_normal (subtract_identity (row (deref hW (Suc (next_ref h))) i))"
    by blast
  from r have "\<forall>i<N. row (deref h' (Suc (next_ref h))) i =
          halve_normal (subtract_identity (tensor2_row
            (add_identity (shear_to_tensor (row (deref h NE) i)))))"
    by (simp add: green_row_def)
  with g v t w show ?thesis by blast
qed

theorem green_steps_witness:
  "shape (deref ex_heap 0) = [2, 6] \<and> wf_ndarray (deref ex_heap 0) \<and> (0::nat) < 2
   \<and> (\<exists>V hV W hW GE h'.
          row (deref hV V) 0 = [2, 3, 4, 2, 2.5, 3]
        \<and> tensor2 V hV = Inr (W, hW)
        \<and> green 0 ex_heap = Inr (GE, h')
        \<and> row (deref h' GE) 0 = halve_normal (subtract_identity (row (deref hW W) 0))
        \<and> row (deref h' GE) 0 = [6.625, 10.5, 15.125, 17.5, 21, 26])"
proof -
  have hyp: "shape (deref ex_heap 0) = [2, 6]" "wf_ndarray (deref ex_heap 0)"
    by (simp_all add: ex_heap_deref wf_ndarray_def)
  have z: "(0::nat) < 2" by simp
  from green_steps [OF hyp] obtain V hV W hW GE h' where
    v: "\<forall>i<2. row (deref hV V) i =
          add_identity (shear_to_tensor (row (deref ex_heap 0) i))" and
    t: "tensor2 V hV = Inr (W, hW)" and
    g: "green 0 ex_heap = Inr (GE, h')" and
    w: "\<forall>i<2. row (deref h' GE) i = halve_normal (subtract_identity (row (deref hW W) i))" and
    r: "\<forall>i<2. row (deref h' GE) i =
          halve_normal (subtract_identity (tensor2_row
            (add_identity (shear_to_tensor (row (deref ex_heap 0) i)))))"
    by blast
  from v z have "row (deref hV V) 0 = add_identity (shear_to_tensor (row (deref ex_heap 0) 0))"
    by blast
  then have v0: "row (deref hV V) 0 = [2, 3, 4, 2, 2.5, 3]"
    by (simp add: ex_rows add_identity_def shear_to_tensor_def)
  from w z have w0: "row (deref h' GE) 0 = halve_normal (subtract_identity (row (deref hW W) 0))"
    by blast
  from r z have "row (deref h' GE) 0 =
          halve_normal (subtract_identity (tensor2_row
            (add_identity (shear_to_tensor (row (deref ex_heap 0) 0)))))"
    by blast
  then have r0: "row (deref h' GE) 0 = [6.625, 10.5, 15.125, 17.5, 21, 26]"
    by (simp add: ex_rows halve_normal_def subtract_identity_def tensor2_row_def
        add_identity_def shear_to_tensor_def)
  from v0 t g w0 r0 have "\<exists>V hV W hW GE h'.
          row (deref hV V) 0 = [2, 3, 4, 2, 2.5, 3]
        \<and> tensor2 V hV = Inr (W, hW)
        \<and> green 0 ex_heap = Inr (GE, h')
        \<and> row (deref h' GE) 0 = halve_normal (subtract_identity (row (deref hW W) 0))
        \<and> row (deref h' GE) 0 = [6.625, 10.5, 15.125, 17.5, 21, 26]"
    by blast
  with hyp z show ?thesis by (intro conjI)
qed

text \<open>
  C2. For every allocated, well-formed batch \<open>A\<close> of shape \<open>(N, 6)\<close>, \<open>tensor2\<close> returns a
  batch of shape \<open>(N, 6)\<close> whose every row holds the six packed components of the
  self-product, term by term and in the order of the formulas of the specification. The
  scalar type is arbitrary, so no law of arithmetic is used: the operations are exactly these.
\<close>

theorem tensor2_rows:
  fixes h :: "'a::{plus,times} heap"
  assumes "A < next_ref h" and "shape (deref h A) = [N, 6]" and "wf_ndarray (deref h A)"
  shows "\<exists>result h'. tensor2 A h = Inr (result, h')
     \<and> shape (deref h' result) = [N, 6]
     \<and> (\<forall>i<N. row (deref h' result) i =
          (let a = row (deref h A) i;
               A11 = a ! 0; A22 = a ! 1; A33 = a ! 2; A12 = a ! 3; A13 = a ! 4; A23 = a ! 5
           in [A11 * A11 + A12 * A12 + A13 * A13,
               A12 * A12 + A22 * A22 + A23 * A23,
               A13 * A13 + A23 * A23 + A33 * A33,
               A11 * A12 + A12 * A22 + A13 * A23,
               A11 * A13 + A12 * A23 + A13 * A33,
               A12 * A13 + A22 * A23 + A23 * A33]))"
  using tensor2_result [OF assms] by (auto simp add: tensor2_row_def Let_def)

theorem tensor2_rows_witness:
  "0 < next_ref ex_heap \<and> shape (deref ex_heap 0) = [2, 6] \<and> wf_ndarray (deref ex_heap 0)
   \<and> (\<exists>result h'. tensor2 0 ex_heap = Inr (result, h')
     \<and> shape (deref h' result) = [2, 6]
     \<and> row (deref h' result) 0 = [42, 56, 70, 42, 44, 50]
     \<and> row (deref h' result) 1 = [0.38, 0.09, 0.25, 0.06, - 0.1, - 0.15])"
proof -
  have "(0::nat) < 2" and "(1::nat) < 2" by simp_all
  have r0: "row (deref ex_heap 0) 0 = [1, 2, 3, 4, 5, 6]"
   and r1: "row (deref ex_heap 0) 1 = [0.2, 0, 0, 0.3, - 0.5, 0]"
    by (simp_all add: ex_heap_deref row_def ncols_def)
  have hyp: "0 < next_ref ex_heap" "shape (deref ex_heap 0) = [2, 6]" "wf_ndarray (deref ex_heap 0)"
    by (simp_all add: ex_heap_deref wf_ndarray_def)
  from tensor2_rows [OF hyp] obtain result h' where
    t: "tensor2 0 ex_heap = Inr (result, h')" and s: "shape (deref h' result) = [2, 6]" and
    r: "\<forall>i<2. row (deref h' result) i =
          (let a = row (deref ex_heap 0) i;
               A11 = a ! 0; A22 = a ! 1; A33 = a ! 2; A12 = a ! 3; A13 = a ! 4; A23 = a ! 5
           in [A11 * A11 + A12 * A12 + A13 * A13,
               A12 * A12 + A22 * A22 + A23 * A23,
               A13 * A13 + A23 * A23 + A33 * A33,
               A11 * A12 + A12 * A22 + A13 * A23,
               A11 * A13 + A12 * A23 + A13 * A33,
               A12 * A13 + A22 * A23 + A23 * A33])"
    by blast
  from r [rule_format, of 0] have "row (deref h' result) 0 = [42, 56, 70, 42, 44, 50]"
    using r0 by (simp add: Let_def)
  moreover from r [rule_format, of 1] have "row (deref h' result) 1 = [0.38, 0.09, 0.25, 0.06, - 0.1, - 0.15]"
    using r1 by (simp add: Let_def)
  ultimately show ?thesis using hyp t s by blast
qed

text \<open>
  C3. For every well-formed batch of shape \<open>(N, 4)\<close> with rows \<open>(x, y, z, w)\<close>,
  \<open>quat2matrix\<close> returns a batch of shape \<open>(N, 3, 3)\<close> whose \<open>i\<close>-th matrix is the standard
  rotation formula applied to row \<open>i\<close>. No hypothesis restricts the rows to unit length:
  nothing is normalised. The scalars form a commutative ring.
\<close>

theorem quat2matrix_formula:
  fixes h :: "'a::comm_ring_1 heap"
  assumes "shape (deref h quatArray) = [N, 4]" and "wf_ndarray (deref h quatArray)"
  shows "\<exists>R h'. quat2matrix quatArray h = Inr (R, h')
     \<and> shape (deref h' R) = [N, 3, 3]
     \<and> (\<forall>i<N. matrix3 (deref h' R) i = rotation_formula (row (deref h quatArray) i))"
  using quat2matrix_result [OF assms] by (auto simp add: quat2matrix_row_formula)

theorem quat2matrix_formula_witness:
  "shape (deref ex_heap 1) = [2, 4] \<and> wf_ndarray (deref ex_heap 1) \<and> (1::nat) < 2
   \<and> (\<exists>R h'. quat2matrix 1 ex_heap = Inr (R, h')
        \<and> shape (deref h' R) = [2, 3, 3]
        \<and> matrix3 (deref h' R) 0 = [[1, 0, 0], [0, 1, 0], [0, 0, 1]]
        \<and> matrix3 (deref h' R) 1 = [[- 25, - 20, 22], [28, - 19, 4], [- 10, 20, - 9]]
        \<and> mat_mul (transpose (matrix3 (deref h' R) 1)) (matrix3 (deref h' R) 1) \<noteq> identity3)"
proof -
  have hyp: "shape (deref ex_heap 1) = [2, 4]" "wf_ndarray (deref ex_heap 1)"
    by (simp_all add: ex_heap_deref wf_ndarray_def)
  from quat2matrix_formula [OF hyp] obtain R h' where
    q: "quat2matrix 1 ex_heap = Inr (R, h')" and s: "shape (deref h' R) = [2, 3, 3]" and
    r: "\<forall>i<2. matrix3 (deref h' R) i = rotation_formula (row (deref ex_heap 1) i)"
    by blast
  from r [rule_format, of 0] have m0: "matrix3 (deref h' R) 0 = [[1, 0, 0], [0, 1, 0], [0, 0, 1]]"
    by (simp add: ex_rows rotation_formula_def Let_def)
  from r [rule_format, of 1] have
    m1: "matrix3 (deref h' R) 1 = [[- 25, - 20, 22], [28, - 19, 4], [- 10, 20, - 9]]"
    by (simp add: ex_rows rotation_formula_def Let_def)
  have "mat_mul (transpose [[- 25, - 20, 22], [28, - 19, 4], [- 10, 20, - 9]])
          [[- 25, - 20, 22], [28, - 19, 4], [- 10, 20, - 9::real]] \<noteq> identity3"
    by (simp add: mat_mul_def upt3 identity3_def)
  then have n: "mat_mul (transpose (matrix3 (deref h' R) 1)) (matrix3 (deref h' R) 1) \<noteq> identity3"
    unfolding m1 .
  from q s m0 m1 n have "\<exists>R h'. quat2matrix 1 ex_heap = Inr (R, h')
        \<and> shape (deref h' R) = [2, 3, 3]
        \<and> matrix3 (deref h' R) 0 = [[1, 0, 0], [0, 1, 0], [0, 0, 1]]
        \<and> matrix3 (deref h' R) 1 = [[- 25, - 20, 22], [28, - 19, 4], [- 10, 20, - 9]]
        \<and> mat_mul (transpose (matrix3 (deref h' R) 1)) (matrix3 (deref h' R) 1) \<noteq> identity3"
    by blast
  with hyp show ?thesis by simp
qed

text \<open>
  C4. On the single-row batch \<open>[(1, 2, 3, 4, 5, 6)]\<close>, \<open>green\<close> returns exactly the
  single-row batch \<open>[(6.625, 10.5, 15.125, 17.5, 21, 26)]\<close>. Scalars are real numbers.
\<close>

theorem green_example:
  fixes h :: "real heap"
  assumes "deref h NE = \<lparr>shape = [1, 6], data = [1, 2, 3, 4, 5, 6]\<rparr>"
  shows "\<exists>GE h'. green NE h = Inr (GE, h')
     \<and> deref h' GE = \<lparr>shape = [1, 6], data = [6.625, 10.5, 15.125, 17.5, 21, 26]\<rparr>"
proof -
  have sh: "shape (deref h NE) = [1, 6]" and wf: "wf_ndarray (deref h NE)"
    and r: "row (deref h NE) 0 = [1, 2, 3, 4, 5, 6]"
    using assms by (simp_all add: wf_ndarray_def row_def ncols_def)
  from green_result [OF sh wf] obtain h' where
    g: "green NE h = Inr (Suc (next_ref h), h')" and
    s: "shape (deref h' (Suc (next_ref h))) = [1, 6]" and
    l: "length (data (deref h' (Suc (next_ref h)))) = 1 * 6" and
    rw: "\<forall>i<1. row (deref h' (Suc (next_ref h))) i = green_row (row (deref h NE) i)"
    by blast
  from rw have "row (deref h' (Suc (next_ref h))) 0 = [6.625, 10.5, 15.125, 17.5, 21, 26]"
    using r green_row_example by simp
  moreover have "row (deref h' (Suc (next_ref h))) 0 = data (deref h' (Suc (next_ref h)))"
    using s l by (simp add: row_single)
  ultimately have "data (deref h' (Suc (next_ref h))) = [6.625, 10.5, 15.125, 17.5, 21, 26]"
    by simp
  with g s show ?thesis by (auto simp add: ndarray_eq)
qed

theorem green_example_witness:
  "deref ex_heap 3 = \<lparr>shape = [1, 6], data = [1, 2, 3, 4, 5, 6]\<rparr>
   \<and> (\<exists>GE h'. green 3 ex_heap = Inr (GE, h')
        \<and> deref h' GE = \<lparr>shape = [1, 6], data = [6.625, 10.5, 15.125, 17.5, 21, 26]\<rparr>)"
  using green_example [of ex_heap 3] by (simp add: ex_heap_deref)

text \<open>
  C5. For every \<open>N\<close>, \<open>green\<close> maps the all-zero batch of shape \<open>(N, 6)\<close> to the all-zero
  batch of shape \<open>(N, 6)\<close>. Scalars are real numbers.
\<close>

theorem green_zero:
  fixes h :: "real heap"
  assumes sh: "shape (deref h NE) = [N, 6]" and z: "data (deref h NE) = replicate (N * 6) 0"
  shows "\<exists>GE h'. green NE h = Inr (GE, h')
     \<and> shape (deref h' GE) = [N, 6] \<and> data (deref h' GE) = replicate (N * 6) 0"
proof -
  have wf: "wf_ndarray (deref h NE)" using sh z by (simp add: wf_ndarray_def)
  have nc: "ncols (deref h NE) = 6" using sh by (simp add: ncols_def)
  from green_result [OF sh wf] obtain h' where
    g: "green NE h = Inr (Suc (next_ref h), h')" and
    s: "shape (deref h' (Suc (next_ref h))) = [N, 6]" and
    l: "length (data (deref h' (Suc (next_ref h)))) = N * 6" and
    rw: "\<forall>i<N. row (deref h' (Suc (next_ref h))) i = green_row (row (deref h NE) i)"
    by blast
  have nc': "ncols (deref h' (Suc (next_ref h))) = 6" using s by (simp add: ncols_def)
  have "row (deref h' (Suc (next_ref h))) i = replicate 6 0" if "i < N" for i
    using rw that row_replicate [OF nc z that] by (simp add: replicate6 green_row_zero)
  then have "data (deref h' (Suc (next_ref h))) = replicate (N * 6) 0"
    using data_replicateI [OF nc' l] by simp
  with g s show ?thesis by blast
qed

theorem green_zero_witness:
  "shape (deref ex_heap 4) = [2, 6] \<and> data (deref ex_heap 4) = replicate (2 * 6) 0
   \<and> (\<exists>GE h'. green 4 ex_heap = Inr (GE, h')
        \<and> shape (deref h' GE) = [2, 6]
        \<and> data (deref h' GE) = [0, 0, 0, 0, 0, 0, 0, 0, 0, 0, 0, 0])"
proof -
  have rep: "replicate (2 * 6) (0::real) = [0, 0, 0, 0, 0, 0, 0, 0, 0, 0, 0, 0]"
    by (simp add: numeral_eq_Suc)
  have d: "data (deref ex_heap 4) = [0, 0, 0, 0, 0, 0, 0, 0, 0, 0, 0, 0]"
    by (simp add: ex_heap_deref)
  have hyp: "shape (deref ex_heap 4) = [2, 6]" "data (deref ex_heap 4) = replicate (2 * 6) 0"
    by (simp add: ex_heap_deref) (simp only: d rep)
  from green_zero [OF hyp] hyp show ?thesis by (simp only: rep simp_thms)
qed

text \<open>
  C6. For a well-formed quaternion batch of shape \<open>(N, 4)\<close>, the orientation branch of
  \<open>calculateGE\<close> (copy, negate the scalar column, \<open>quat2matrix\<close>) yields for every row the
  transpose of the matrix that \<open>quat2matrix\<close> yields for the row itself; and for a unit
  quaternion that transpose is the inverse: both products of the two matrices are the
  identity. Scalars are real numbers.
\<close>

theorem inverted_quaternion_transpose:
  fixes h :: "real heap"
  assumes "shape (deref h lcs) = [N, 4]" and "wf_ndarray (deref h lcs)"
  shows "\<exists>R h1 R' h2. quat2matrix lcs h = Inr (R, h1)
     \<and> calculateGE_localCoordSystem lcs h = Inr (R', h2)
     \<and> (\<forall>i<N. matrix3 (deref h2 R') i = transpose (matrix3 (deref h1 R) i)
           \<and> (unit_quaternion (row (deref h lcs) i) \<longrightarrow>
                mat_mul (matrix3 (deref h2 R') i) (matrix3 (deref h1 R) i) = identity3
              \<and> mat_mul (matrix3 (deref h1 R) i) (matrix3 (deref h2 R') i) = identity3))"
proof -
  from quat2matrix_result [OF assms] obtain h1 where
    q: "quat2matrix lcs h = Inr (next_ref h, h1)" and
    r1: "\<forall>i<N. matrix3 (deref h1 (next_ref h)) i = quat2matrix_row (row (deref h lcs) i)"
    by blast
  from localCoordSystem_result [OF assms] obtain h2 where
    c: "calculateGE_localCoordSystem lcs h = Inr (Suc (next_ref h), h2)" and
    r2: "\<forall>i<N. matrix3 (deref h2 (Suc (next_ref h))) i =
           quat2matrix_row [row (deref h lcs) i ! 0, row (deref h lcs) i ! 1,
                            row (deref h lcs) i ! 2, row (deref h lcs) i ! 3 * - 1]"
    by blast
  have "matrix3 (deref h2 (Suc (next_ref h))) i = transpose (matrix3 (deref h1 (next_ref h)) i)
      \<and> (unit_quaternion (row (deref h lcs) i) \<longrightarrow>
           mat_mul (matrix3 (deref h2 (Suc (next_ref h))) i) (matrix3 (deref h1 (next_ref h)) i)
             = identity3
         \<and> mat_mul (matrix3 (deref h1 (next_ref h)) i) (matrix3 (deref h2 (Suc (next_ref h))) i)
             = identity3)"
    if "i < N" for i
  proof -
    let ?q = "row (deref h lcs) i"
    have e1: "matrix3 (deref h1 (next_ref h)) i = quat2matrix_row ?q"
      using r1 that by blast
    have "matrix3 (deref h2 (Suc (next_ref h))) i =
        quat2matrix_row [?q ! 0, ?q ! 1, ?q ! 2, ?q ! 3 * - 1]"
      using r2 that by blast
    also have "\<dots> = transpose (quat2matrix_row ?q)" by (rule quat2matrix_row_inverse)
    finally have e2: "matrix3 (deref h2 (Suc (next_ref h))) i = transpose (quat2matrix_row ?q)" .
    show ?thesis
      unfolding e1 e2 using quat2matrix_row_orthogonal [of ?q] by blast
  qed
  with q c show ?thesis by blast
qed

theorem inverted_quaternion_transpose_witness:
  "shape (deref ex_heap 2) = [1, 4] \<and> wf_ndarray (deref ex_heap 2)
   \<and> unit_quaternion (row (deref ex_heap 2) 0)
   \<and> (\<exists>R h1 R' h2. quat2matrix 2 ex_heap = Inr (R, h1)
        \<and> calculateGE_localCoordSystem 2 ex_heap = Inr (R', h2)
        \<and> matrix3 (deref h2 R') 0 = transpose (matrix3 (deref h1 R) 0)
        \<and> mat_mul (matrix3 (deref h2 R') 0) (matrix3 (deref h1 R) 0) = identity3
        \<and> mat_mul (matrix3 (deref h1 R) 0) (matrix3 (deref h2 R') 0) = identity3)"
proof -
  have hyp: "shape (deref ex_heap 2) = [1, 4]" "wf_ndarray (deref ex_heap 2)"
    by (simp_all add: ex_heap_deref wf_ndarray_def)
  have u: "unit_quaternion (row (deref ex_heap 2) 0)"
    by (simp add: ex_heap_deref row_def ncols_def unit_quaternion_def power2_eq_square)
  from inverted_quaternion_transpose [OF hyp] u hyp show ?thesis by auto
qed

text \<open>
  C7. \<open>tensor2\<close> and \<open>green\<close> fail with an AssertionError on every array that is not
  two-dimensional or whose second dimension is not 6, and \<open>quat2matrix\<close> fails with an
  AssertionError on every array that is not two-dimensional or whose second dimension is
  not 4; no result is returned.
\<close>

theorem shape_validation:
  fixes h :: "'a::{numeral,minus,times,inverse} heap"
  shows "(length (shape (deref h A)) \<noteq> 2 \<or> shape (deref h A) ! 1 \<noteq> 6 \<longrightarrow>
            (\<exists>msg. tensor2 A h = Inl (AssertionError msg)) \<and>
            (\<exists>msg. green A h = Inl (AssertionError msg)))
       \<and> (length (shape (deref h A)) \<noteq> 2 \<or> shape (deref h A) ! 1 \<noteq> 4 \<longrightarrow>
            (\<exists>msg. quat2matrix A h = Inl (AssertionError msg)))"
  by (auto simp add: tensor2_def green_def quat2matrix_def)

theorem shape_validation_witness:
  "shape (deref ex_heap 5) ! 1 \<noteq> 6 \<and> shape (deref ex_heap 6) ! 1 \<noteq> 6
   \<and> length (shape (deref ex_heap 8)) \<noteq> 2
   \<and> shape (deref ex_heap 7) ! 1 \<noteq> 4 \<and> shape (deref ex_heap 5) ! 1 \<noteq> 4
   \<and> (\<exists>msg. tensor2 5 ex_heap = Inl (AssertionError msg))
   \<and> (\<exists>msg. green 5 ex_heap = Inl (AssertionError msg))
   \<and> (\<exists>msg. tensor2 6 ex_heap = Inl (AssertionError msg))
   \<and> (\<exists>msg. green 6 ex_heap = Inl (AssertionError msg))
   \<and> (\<exists>msg. tensor2 8 ex_heap = Inl (AssertionError msg))
   \<and> (\<exists>msg. green 8 ex_heap = Inl (AssertionError msg))
   \<and> (\<exists>msg. quat2matrix 8 ex_heap = Inl (AssertionError msg))
   \<and> (\<exists>msg. quat2matrix 7 ex_heap = Inl (AssertionError msg))
   \<and> (\<exists>msg. quat2matrix 5 ex_heap = Inl (AssertionError msg))"
  using shape_validation [of ex_heap 5] shape_validation [of ex_heap 6]
    shape_validation [of ex_heap 7] shape_validation [of ex_heap 8]
  by (simp add: ex_heap_deref)

text \<open>
  C8. For every well-formed batch of shape \<open>(N, 6)\<close>, \<open>green\<close> returns a batch of the same
  shape: \<open>N\<close> rows, 6 columns, and a buffer of matching length.
\<close>

theorem green_shape:
  fixes h :: "'a::{numeral,minus,times,inverse} heap"
  assumes "shape (deref h NE) = [N, 6]" and "wf_ndarray (deref h NE)"
  shows "\<exists>GE h'. green NE h = Inr (GE, h')
     \<and> shape (deref h' GE) = shape (deref h NE)
     \<and> nrows (deref h' GE) = N \<and> ncols (deref h' GE) = 6
     \<and> wf_ndarray (deref h' GE)"
  using green_result [OF assms] assms(1)
  by (auto simp add: wf_ndarray_def nrows_def ncols_def)

theorem green_shape_witness:
  "shape (deref ex_heap 0) = [2, 6] \<and> wf_ndarray (deref ex_heap 0)
   \<and> (\<exists>GE h'. green 0 ex_heap = Inr (GE, h')
        \<and> shape (deref h' GE) = [2, 6]
        \<and> nrows (deref h' GE) = 2 \<and> ncols (deref h' GE) = 6 \<and> wf_ndarray (deref h' GE))"
proof -
  have hyp: "shape (deref ex_heap 0) = [2, 6]" "wf_ndarray (deref ex_heap 0)"
    by (simp_all add: ex_heap_deref wf_ndarray_def)
  from green_shape [OF hyp] hyp show ?thesis by simp
qed

text \<open>
  C9. For every allocated, well-formed batch \<open>A\<close> of shape \<open>(N, 6)\<close>, each row of
  \<open>tensor2(A)\<close> is the packing of the full matrix product \<open>M \<cdot> M\<close> of the symmetric
  \<open>3 \<times> 3\<close> matrix \<open>M\<close> unpacked from that row of \<open>A\<close>; and the packing loses nothing, the
  full product being the symmetric matrix unpacked from the result row. The scalars form a
  commutative semiring.
\<close>

theorem tensor2_is_matrix_product:
  fixes h :: "'a::comm_semiring_0 heap"
  assumes "A < next_ref h" and "shape (deref h A) = [N, 6]" and "wf_ndarray (deref h A)"
  shows "\<exists>result h'. tensor2 A h = Inr (result, h')
     \<and> (\<forall>i<N. row (deref h' result) i =
                 pack_sym (mat_mul (unpack_sym (row (deref h A) i))
                                   (unpack_sym (row (deref h A) i)))
              \<and> mat_mul (unpack_sym (row (deref h A) i)) (unpack_sym (row (deref h A) i)) =
                 unpack_sym (row (deref h' result) i))"
proof -
  from tensor2_result [OF assms] obtain h' where
    t: "tensor2 A h = Inr (next_ref h, h')" and
    r: "\<forall>i<N. row (deref h' (next_ref h)) i = tensor2_row (row (deref h A) i)"
    by blast
  have "row (deref h' (next_ref h)) i =
          pack_sym (mat_mul (unpack_sym (row (deref h A) i)) (unpack_sym (row (deref h A) i)))
      \<and> mat_mul (unpack_sym (row (deref h A) i)) (unpack_sym (row (deref h A) i)) =
          unpack_sym (row (deref h' (next_ref h)) i)" if "i < N" for i
    using r that by (simp add: tensor2_row_mat_mul pack_unpack_tensor2_row)
  with t show ?thesis by blast
qed

theorem tensor2_is_matrix_product_witness:
  "0 < next_ref ex_heap \<and> shape (deref ex_heap 0) = [2, 6] \<and> wf_ndarray (deref ex_heap 0)
   \<and> (0::nat) < 2
   \<and> (\<exists>result h'. tensor2 0 ex_heap = Inr (result, h')
        \<and> row (deref h' result) 0 =
             pack_sym (mat_mul [[1, 4, 5], [4, 2, 6], [5, 6, 3]] [[1, 4, 5], [4, 2, 6], [5, 6, 3]])
        \<and> mat_mul [[1, 4, 5], [4, 2, 6], [5, 6, 3]] [[1, 4, 5], [4, 2, 6], [5, 6, 3::real]] =
             [[42, 42, 44], [42, 56, 50], [44, 50, 70]]
        \<and> row (deref h' result) 0 = [42, 56, 70, 42, 44, 50])"
proof -
  have hyp: "0 < next_ref ex_heap" "shape (deref ex_heap 0) = [2, 6]"
    "wf_ndarray (deref ex_heap 0)"
    by (simp_all add: ex_heap_deref wf_ndarray_def)
  have u: "unpack_sym (row (deref ex_heap 0) 0) = [[1, 4, 5], [4, 2, 6], [5, 6, 3]]"
    by (simp add: ex_rows unpack_sym_def)
  have m: "mat_mul [[1, 4, 5], [4, 2, 6], [5, 6, 3]] [[1, 4, 5], [4, 2, 6], [5, 6, 3::real]] =
             [[42, 42, 44], [42, 56, 50], [44, 50, 70]]"
    by (simp add: mat_mul_def upt3)
  from tensor2_is_matrix_product [OF hyp] obtain result h' where
    t: "tensor2 0 ex_heap = Inr (result, h')" and
    r: "\<forall>i<2. row (deref h' result) i =
                 pack_sym (mat_mul (unpack_sym (row (deref ex_heap 0) i))
                                   (unpack_sym (row (deref ex_heap 0) i)))
              \<and> mat_mul (unpack_sym (row (deref ex_heap 0) i))
                         (unpack_sym (row (deref ex_heap 0) i)) =
                 unpack_sym (row (deref h' result) i)"
    by blast
  have "(0::nat) < 2" by simp
  with r have "row (deref h' result) 0 =
      pack_sym (mat_mul (unpack_sym (row (deref ex_heap 0) 0))
                        (unpack_sym (row (deref ex_heap 0) 0)))"
    by blast
  then have p: "row (deref h' result) 0 =
       pack_sym (mat_mul [[1, 4, 5], [4, 2, 6], [5, 6, 3]] [[1, 4, 5], [4, 2, 6], [5, 6, 3]])"
    by (simp only: u)
  then have v: "row (deref h' result) 0 = [42, 56, 70, 42, 44, 50]"
    by (simp only: m) (simp add: pack_sym_def)
  have "tensor2 0 ex_heap = Inr (result, h')
        \<and> row (deref h' result) 0 =
             pack_sym (mat_mul [[1, 4, 5], [4, 2, 6], [5, 6, 3]] [[1, 4, 5], [4, 2, 6], [5, 6, 3]])
        \<and> mat_mul [[1, 4, 5], [4, 2, 6], [5, 6, 3]] [[1, 4, 5], [4, 2, 6], [5, 6, 3::real]] =
             [[42, 42, 44], [42, 56, 50], [44, 50, 70]]
        \<and> row (deref h' result) 0 = [42, 56, 70, 42, 44, 50]"
    using t p m v by (intro conjI)
  then have "\<exists>result h'. tensor2 0 ex_heap = Inr (result, h')
        \<and> row (deref h' result) 0 =
             pack_sym (mat_mul [[1, 4, 5], [4, 2, 6], [5, 6, 3]] [[1, 4, 5], [4, 2, 6], [5, 6, 3]])
        \<and> mat_mul [[1, 4, 5], [4, 2, 6], [5, 6, 3]] [[1, 4, 5], [4, 2, 6], [5, 6, 3::real]] =
             [[42, 42, 44], [42, 56, 50], [44, 50, 70]]
        \<and> row (deref h' result) 0 = [42, 56, 70, 42, 44, 50]"
    by (intro exI)
  with hyp \<open>(0::nat) < 2\<close> show ?thesis by (intro conjI)
qed

text \<open>
  C10. \<open>green\<close> does not change its argument: for every allocated, well-formed batch of
  shape \<open>(N, 6)\<close>, the result is a different array, and the argument and every other array
  allocated before the call hold their original shape and values afterwards. The same holds
  for \<open>tensor2\<close>, whose result is a fresh array.
\<close>

theorem green_keeps_argument:
  fixes h :: "'a::{numeral,minus,times,inverse} heap"
  assumes "NE < next_ref h" and "shape (deref h NE) = [N, 6]" and "wf_ndarray (deref h NE)"
  shows "(\<exists>GE h'. green NE h = Inr (GE, h')
            \<and> GE \<noteq> NE
            \<and> deref h' NE = deref h NE
            \<and> (\<forall>r<next_ref h. deref h' r = deref h r))
       \<and> (\<exists>result h'. tensor2 NE h = Inr (result, h')
            \<and> result \<noteq> NE
            \<and> (\<forall>r<next_ref h. deref h' r = deref h r))"
proof
  show "\<exists>GE h'. green NE h = Inr (GE, h') \<and> GE \<noteq> NE \<and> deref h' NE = deref h NE
      \<and> (\<forall>r<next_ref h. deref h' r = deref h r)"
    using green_result [OF assms(2,3)] assms(1) by auto
  show "\<exists>result h'. tensor2 NE h = Inr (result, h') \<and> result \<noteq> NE
      \<and> (\<forall>r<next_ref h. deref h' r = deref h r)"
    using tensor2_result [OF assms] assms(1) by auto
qed

theorem green_keeps_argument_witness:
  "0 < next_ref ex_heap \<and> shape (deref ex_heap 0) = [2, 6] \<and> wf_ndarray (deref ex_heap 0)
   \<and> (\<exists>GE h'. green 0 ex_heap = Inr (GE, h')
        \<and> GE \<noteq> 0
        \<and> deref h' 0 =
            \<lparr>shape = [2, 6], data = [1, 2, 3, 4, 5, 6, 0.2, 0, 0, 0.3, - 0.5, 0]\<rparr>)
   \<and> (\<exists>result h'. tensor2 0 ex_heap = Inr (result, h')
        \<and> result \<noteq> 0
        \<and> deref h' 0 =
            \<lparr>shape = [2, 6], data = [1, 2, 3, 4, 5, 6, 0.2, 0, 0, 0.3, - 0.5, 0]\<rparr>)"
proof -
  have hyp: "0 < next_ref ex_heap" "shape (deref ex_heap 0) = [2, 6]"
    "wf_ndarray (deref ex_heap 0)"
    by (simp_all add: ex_heap_deref wf_ndarray_def)
  from green_keeps_argument [OF hyp] hyp show ?thesis
    by (auto simp add: ex_heap_deref)
qed

end
